theory Spec2Isabelle
  imports Main "HOL-Library.Multiset"
begin

section \<open>The AWS sign-in helper of example-idp-integration (aws/main.go)\<close>

text \<open>
  The program tries a fixed list of sign-in methods in order. Everything it does is a
  sequence of calls to the outside: environment reads, a PATH lookup, two HTTP calls and
  a few child processes. The model makes the outside an explicit record \<open>world\<close> of
  answers and records every outward action of the program in a trace of events, which
  is the only state the Go code threads from one statement to the next.

  The source file holds two listings of the program. The model follows the second, in
  which \<open>main\<close> ranges over the list of the three methods and the verbose flow is
  present; \<open>runningInGitpod\<close>, \<open>signinWithGitpod\<close> and \<open>signinWithSSO\<close> are the same
  in both.
\<close>

subsection \<open>Errors, requests, responses, events\<close>

text \<open>
  A Go error: its message (\<open>Error()\<close>) and what \<open>errors.Unwrap\<close> gives.
  \<open>fmt.Errorf\<close> with the verb \<open>%w\<close> builds a new error whose message is the
  formatted text and which wraps the operand of \<open>%w\<close>.
\<close>

datatype error = Error (msg: string) (unwrap: "error option")

record request =
  req_method :: string
  req_url :: string
  req_header :: "(string \<times> string) list"
  req_body :: string

record response =
  status_code :: nat
  resp_body :: string

text \<open>The \<open>Credentials\<close> member of the struct \<open>result\<close> of step 4.\<close>

record credentials =
  AccessKeyId :: string
  SecretAccessKey :: string
  SessionToken :: string

text \<open>
  What the program does to the outside, in the order it does it: a write to standard
  error, a child process run to completion (\<open>exec.Command(...).CombinedOutput()\<close>),
  \<open>client.Get\<close> and \<open>client.Do\<close>.
\<close>

datatype event =
    Stderr string
  | Exec "string list"
  | HttpGet string
  | HttpDo request

subsection \<open>The outside world\<close>

text \<open>
  The answers of the operating system, of the network and of the Go standard library,
  none of which is code of this repository:
  \<^item> \<open>getenv\<close>: \<open>os.Getenv\<close>, the empty string for an unset variable;
  \<^item> \<open>lookPath\<close>: the path \<open>exec.LookPath\<close> returns, empty when the lookup fails
    (the code drops the error);
  \<^item> \<open>url_parse_host\<close>: \<open>url.Parse\<close> followed by the field \<open>Host\<close>;
  \<^item> \<open>http_get\<close>, \<open>http_do\<close>: the HTTP client; \<open>Inl\<close> is a transport error
    (the 10 second timeout included), \<open>Inr\<close> a response of any status;
  \<^item> \<open>decode_token\<close>: \<open>json.NewDecoder(body).Decode\<close> into a struct with the one
    field \<open>token\<close>: \<open>Inl\<close> for a body that does not decode, \<open>Inr None\<close> for a
    body without that member (the field keeps the value it had), \<open>Inr (Some t)\<close>
    otherwise;
  \<^item> \<open>json_marshal\<close>: \<open>json.Marshal\<close> of the request struct (workspace id, audience);
  \<^item> \<open>new_request\<close>: the error of \<open>http.NewRequest\<close> for a method and a URL;
  \<^item> \<open>combined_output\<close>: a child process, by its argument vector: its combined
    output and its error (\<open>None\<close> for exit status 0);
  \<^item> \<open>json_unmarshal\<close>: \<open>json.Unmarshal\<close> into the struct \<open>result\<close>;
  \<^item> \<open>now_unix\<close>: \<open>time.Now().Unix()\<close>;
  \<^item> \<open>map_order\<close>: the runtime's choice of an iteration order for \<open>range\<close> over
    a map, see \<open>range_order\<close>.
\<close>

record world =
  getenv :: "string \<Rightarrow> string"
  lookPath :: "string \<Rightarrow> string"
  url_parse_host :: "string \<Rightarrow> error + string"
  http_get :: "string \<Rightarrow> error + response"
  http_do :: "request \<Rightarrow> error + response"
  decode_token :: "string \<Rightarrow> error + string option"
  json_marshal :: "string \<Rightarrow> string list \<Rightarrow> error + string"
  new_request :: "string \<Rightarrow> string \<Rightarrow> error option"
  combined_output :: "string list \<Rightarrow> string \<times> error option"
  json_unmarshal :: "string \<Rightarrow> error + credentials"
  now_unix :: int
  map_order :: nat

text \<open>The return values \<open>(didSignIn bool, err error)\<close>, and the trace after the call.\<close>

type_synonym signin_result = "(bool \<times> error option) \<times> event list"

type_synonym SigninMethodFunc = "event list \<Rightarrow> signin_result"

subsection \<open>Formatting\<close>

text \<open>The verb \<open>%d\<close> of \<open>fmt.Sprintf\<close> on a signed integer: decimal, with a minus sign.\<close>

function digits :: "nat \<Rightarrow> string" where
  "digits n =
     (if n < 10 then [''0123456789'' ! n]
      else digits (n div 10) @ [''0123456789'' ! (n mod 10)])"
  by pat_completeness auto
termination
  by (relation "measure id") auto

declare digits.simps [simp del]

definition sprint_d :: "int \<Rightarrow> string" where
  "sprint_d i = (if i < 0 then CHR ''-'' # digits (nat (- i)) else digits (nat i))"

text \<open>
  Go leaves the order of \<open>range\<close> over a map unspecified: every entry is visited once,
  in an order the runtime picks. The pick is the number \<open>map_order\<close> of the world,
  read as a factorial-base code: its residue modulo the number of entries selects the
  entry visited first, the quotient orders the rest. Code 0 is the order of the literal.
\<close>

function range_order :: "nat \<Rightarrow> 'a list \<Rightarrow> 'a list" where
  "range_order n [] = []"
| "range_order n (x # xs) =
     (let ys = x # xs; i = n mod length ys
      in ys ! i # range_order (n div length ys) (take i ys @ drop (Suc i) ys))"
  by pat_completeness auto
termination
  by (relation "measure (\<lambda>(n, xs). length xs)") auto

subsection \<open>The messages\<close>

definition role_arn_hint :: string where
  "role_arn_hint =
     ''Running in a Gitpod workspace, but the IDP_AWS_ROLE_ARN environment variable is not set.\<newline>Please setup OIDC trust (https://www.gitpod.io/docs/integrations/aws) and set the IDP_AWS_ROLE_ARN environment variable on your project\<newline>\<newline>''"

text \<open>The last four bytes before the line feed are the UTF-8 encoding of U+1F937.\<close>

definition tried_everything :: string where
  "tried_everything =
     ''don't know how to sign in - I've tried everythin ''
       @ [CHR 0xF0, CHR 0x9F, CHR 0xA4, CHR 0xB7] @ ''\<newline>''"

subsection \<open>runningInGitpod, signinWithGitpod, signinWithSSO\<close>

definition runningInGitpod :: "world \<Rightarrow> bool" where
  "runningInGitpod w =
     (if getenv w ''GITPOD_WORKSPACE_URL'' = [] then False
      else if lookPath w ''gp'' = [] then False
      else True)"

definition gp_login_cmd :: "string list" where
  "gp_login_cmd = [''gp'', ''idp'', ''login'', ''aws'']"

definition signinWithGitpod :: "world \<Rightarrow> SigninMethodFunc" where
  "signinWithGitpod w tr =
     (if \<not> runningInGitpod w then ((False, None), tr)
      else if getenv w ''IDP_AWS_ROLE_ARN'' = []
        then ((False, None), tr @ [Stderr role_arn_hint])
      else
        (case combined_output w gp_login_cmd of
           (out, Some err) \<Rightarrow>
             ((False, Some (Error (''gp idp login failure: '' @ out @ '': '' @ msg err) (Some err))),
              tr @ [Exec gp_login_cmd])
         | (out, None) \<Rightarrow> ((True, None), tr @ [Exec gp_login_cmd])))"

definition signinWithSSO :: "world \<Rightarrow> SigninMethodFunc" where
  "signinWithSSO w tr = ((False, None), tr)"

subsection \<open>signinWithGitpodVerbose\<close>

text \<open>
  The function is one straight line of four numbered steps, each of which returns early
  on an error. The model has one definition for each step, which ends by entering the
  next one; step 4 is the innermost.
\<close>

definition configure_set_cmd :: "string \<times> string \<Rightarrow> string list" where
  "configure_set_cmd kv =
     [''aws'', ''configure'', ''set'', ''--profile'', ''default'', fst kv, snd kv]"

text \<open>
  The loop \<open>for k, v := range vars\<close>, on the entries in the order of the iteration:
  the error it returns with, if any, and the trace.
\<close>

fun set_vars :: "world \<Rightarrow> (string \<times> string) list \<Rightarrow> event list \<Rightarrow> error option \<times> event list" where
  "set_vars w [] tr = (None, tr)"
| "set_vars w (kv # rest) tr =
     (case combined_output w (configure_set_cmd kv) of
        (out, Some err) \<Rightarrow>
          (Some (Error (msg err @ '': '' @ out) (Some err)), tr @ [Exec (configure_set_cmd kv)])
      | (out, None) \<Rightarrow> set_vars w rest (tr @ [Exec (configure_set_cmd kv)]))"

definition vars :: "credentials \<Rightarrow> (string \<times> string) list" where
  "vars c =
     [(''aws_access_key_id'', AccessKeyId c),
      (''aws_secret_access_key'', SecretAccessKey c),
      (''aws_session_token'', SessionToken c)]"

definition verbose_step4 :: "world \<Rightarrow> string \<Rightarrow> event list \<Rightarrow> signin_result" where
  "verbose_step4 w out tr =
     (case json_unmarshal w out of
        Inl err \<Rightarrow> ((False, Some err), tr)
      | Inr c \<Rightarrow>
          (case set_vars w (range_order (map_order w) (vars c)) tr of
             (Some err, tr') \<Rightarrow> ((False, Some err), tr')
           | (None, tr') \<Rightarrow> ((True, None), tr')))"

definition assume_role_cmd :: "string \<Rightarrow> string \<Rightarrow> string \<Rightarrow> string list" where
  "assume_role_cmd roleARN session token =
     [''aws'', ''sts'', ''assume-role-with-web-identity'', ''--role-arn'', roleARN,
      ''--role-session-name'', session, ''--web-identity-token'', token]"

definition verbose_step3 :: "world \<Rightarrow> string \<Rightarrow> string \<Rightarrow> string \<Rightarrow> event list \<Rightarrow> signin_result" where
  "verbose_step3 w roleARN workspaceID idtkn_Token tr =
     (let awsCmd = assume_role_cmd roleARN (workspaceID @ ''-'' @ sprint_d (now_unix w)) idtkn_Token
      in case combined_output w awsCmd of
           (out, Some err) \<Rightarrow>
             ((False, Some (Error (msg err @ '': '' @ out) (Some err))), tr @ [Exec awsCmd])
         | (out, None) \<Rightarrow> verbose_step4 w out (tr @ [Exec awsCmd]))"

definition id_token_url :: "string \<Rightarrow> string" where
  "id_token_url host =
     ''https://api.'' @ host @ ''/gitpod.experimental.v1.IdentityProviderService/GetIDToken''"

definition id_token_request :: "string \<Rightarrow> string \<Rightarrow> string \<Rightarrow> request" where
  "id_token_request host tkn_Token idpReq =
     \<lparr>req_method = ''POST'', req_url = id_token_url host,
      req_header = [(''Authorization'', ''Bearer '' @ tkn_Token),
                    (''Content-Type'', ''application/json'')],
      req_body = idpReq\<rparr>"

text \<open>
  Step 2 declares the variable \<open>idtkn\<close> and then decodes the response into \<open>tkn\<close>,
  the variable of step 1: \<open>idtkn.Token\<close> keeps the zero value of a Go string, and it
  is \<open>idtkn.Token\<close> that step 3 is given.
\<close>

definition verbose_step2 :: "world \<Rightarrow> string \<Rightarrow> string \<Rightarrow> string \<Rightarrow> string \<Rightarrow> event list \<Rightarrow> signin_result" where
  "verbose_step2 w roleARN workspaceID host tkn_Token tr =
     (case json_marshal w workspaceID [''sts.amazonaws.com''] of
        Inl err \<Rightarrow>
          ((False, Some (Error (''cannot marshal ID token request: '' @ msg err) (Some err))), tr)
      | Inr idpReq \<Rightarrow>
          (case new_request w ''POST'' (id_token_url host) of
             Some err \<Rightarrow>
               ((False, Some (Error (''cannot prepare ID token request: '' @ msg err) (Some err))), tr)
           | None \<Rightarrow>
               (let req = id_token_request host tkn_Token idpReq
                in case http_do w req of
                     Inl err \<Rightarrow>
                       ((False, Some (Error (''cannot make ID token request: '' @ msg err) (Some err))),
                        tr @ [HttpDo req])
                   | Inr resp \<Rightarrow>
                       (let idtkn_Token = []
                        in case decode_token w (resp_body resp) of
                             Inl err \<Rightarrow>
                               ((False,
                                 Some (Error (''cannot decode ID token response: '' @ msg err) (Some err))),
                                tr @ [HttpDo req])
                           | Inr t \<Rightarrow>
                               (let tkn_Token' = (case t of None \<Rightarrow> tkn_Token | Some x \<Rightarrow> x)
                                in verbose_step3 w roleARN workspaceID idtkn_Token
                                     (tr @ [HttpDo req]))))))"

definition gitpod_token_url :: "string \<Rightarrow> string \<Rightarrow> string" where
  "gitpod_token_url supervisorAddr host =
     ''http://'' @ supervisorAddr @ ''/_supervisor/v1/token/gitpod/'' @ host @ ''/''"

definition verbose_step1 :: "world \<Rightarrow> string \<Rightarrow> event list \<Rightarrow> signin_result" where
  "verbose_step1 w roleARN tr =
     (let supervisorAddr = getenv w ''SUPERVISOR_ADDR'';
          gitpodHostRaw = getenv w ''GITPOD_HOST'';
          workspaceID = getenv w ''GITPOD_WORKSPACE_ID''
      in case url_parse_host w gitpodHostRaw of
           Inl err \<Rightarrow>
             ((False, Some (Error (''invalid Gitpod host url: '' @ msg err) (Some err))), tr)
         | Inr host \<Rightarrow>
             (let u = gitpod_token_url supervisorAddr host
              in case http_get w u of
                   Inl err \<Rightarrow>
                     ((False, Some (Error (''cannot get gitpod token: '' @ msg err) (Some err))),
                      tr @ [HttpGet u])
                 | Inr resp \<Rightarrow>
                     (case decode_token w (resp_body resp) of
                        Inl err \<Rightarrow>
                          ((False, Some (Error (''cannot decode gitpod token: '' @ msg err) (Some err))),
                           tr @ [HttpGet u])
                      | Inr t \<Rightarrow>
                          (let tkn_Token = (case t of None \<Rightarrow> [] | Some x \<Rightarrow> x)
                           in verbose_step2 w roleARN workspaceID host tkn_Token
                                (tr @ [HttpGet u])))))"

definition signinWithGitpodVerbose :: "world \<Rightarrow> SigninMethodFunc" where
  "signinWithGitpodVerbose w tr =
     (if \<not> runningInGitpod w then ((False, None), tr)
      else
        (let roleARN = getenv w ''IDP_AWS_ROLE_ARN''
         in if roleARN = [] then ((False, None), tr @ [Stderr role_arn_hint])
            else verbose_step1 w roleARN tr))"

subsection \<open>main\<close>

text \<open>
  The loop of \<open>main\<close> over a list of methods: whether one of them signed in (the
  \<open>return\<close> inside the loop), and the trace.
\<close>

fun signin_loop :: "SigninMethodFunc list \<Rightarrow> event list \<Rightarrow> bool \<times> event list" where
  "signin_loop [] tr = (False, tr)"
| "signin_loop (signin # rest) tr =
     (case signin tr of
        ((didSignIn, err), tr') \<Rightarrow>
          if didSignIn then (True, tr')
          else signin_loop rest
                 (case err of
                    None \<Rightarrow> tr'
                  | Some e \<Rightarrow> tr' @ [Stderr (''error while logging in: '' @ msg e @ ''\<newline>'')]))"

definition dispatch :: "SigninMethodFunc list \<Rightarrow> event list \<Rightarrow> event list" where
  "dispatch methods tr =
     (case signin_loop methods tr of
        (True, tr') \<Rightarrow> tr'
      | (False, tr') \<Rightarrow> tr' @ [Stderr tried_everything])"

definition signinMethods :: "world \<Rightarrow> SigninMethodFunc list" where
  "signinMethods w = [signinWithGitpod w, signinWithGitpodVerbose w, signinWithSSO w]"

definition main :: "world \<Rightarrow> event list \<Rightarrow> event list" where
  "main w tr = dispatch (signinMethods w) tr"

text \<open>
  The process: \<open>main\<close> has no call of \<open>os.Exit\<close> and no statement that can panic, so
  it returns, and a Go program whose \<open>main\<close> returns exits with status 0.
\<close>

definition run_program :: "world \<Rightarrow> int \<times> event list" where
  "run_program w = (0, main w [])"

subsection \<open>Observations on a run\<close>

text \<open>
  The argument vectors of the profile writes in a trace: the child processes that are
  \<open>aws configure set\<close>.
\<close>

fun profile_sets :: "event list \<Rightarrow> string list list" where
  "profile_sets [] = []"
| "profile_sets (Exec args # evs) =
     (if take 3 args = [''aws'', ''configure'', ''set''] then args # profile_sets evs
      else profile_sets evs)"
| "profile_sets (ev # evs) = profile_sets evs"

text \<open>
  The later steps of the verbose flow, as they show in a trace: the identity-token
  request and every child process.
\<close>

fun later_step :: "event \<Rightarrow> bool" where
  "later_step (HttpDo req) = True"
| "later_step (Exec args) = True"
| "later_step ev = False"

text \<open>
  One attempt that did not sign in, as the dispatcher is described: the method is
  invoked once, and the error it returns, if any, is written to standard error.
  \<open>attempts_failed\<close> does so for each method of a list, in the order of the list.
\<close>

definition attempt_failed :: "SigninMethodFunc \<Rightarrow> event list \<Rightarrow> event list" where
  "attempt_failed signin tr =
     (case snd (fst (signin tr)) of
        None \<Rightarrow> snd (signin tr)
      | Some e \<Rightarrow> snd (signin tr) @ [Stderr (''error while logging in: '' @ msg e @ ''\<newline>'')])"

definition attempts_failed :: "SigninMethodFunc list \<Rightarrow> event list \<Rightarrow> event list" where
  "attempts_failed methods tr = foldl (\<lambda>t signin. attempt_failed signin t) tr methods"

subsection \<open>Concrete worlds\<close>

text \<open>
  A workspace in which every outside call answers as the flow expects, and variations
  of it in which one call does not.
\<close>

definition demo_env :: "string \<Rightarrow> string" where
  "demo_env v =
     (if v = ''GITPOD_WORKSPACE_URL'' then ''https://demo-ws.ws.gitpod.io''
      else if v = ''IDP_AWS_ROLE_ARN'' then ''arn:aws:iam::123456789012:role/demo''
      else if v = ''SUPERVISOR_ADDR'' then ''localhost:22999''
      else if v = ''GITPOD_HOST'' then ''https://gitpod.io''
      else if v = ''GITPOD_WORKSPACE_ID'' then ''demo-ws''
      else [])"

definition gitpod_token_body :: string where
  \<open>gitpod_token_body = ''{"token":"gitpod-token"}''\<close>

definition id_token_body :: string where
  \<open>id_token_body = ''{"token":"identity-token"}''\<close>

definition sts_output :: string where
  \<open>sts_output =
     ''{"Credentials":{"AccessKeyId":"AKIADEMO","SecretAccessKey":"secret","SessionToken":"session"}}''\<close>

definition demo_world :: world where
  \<open>demo_world =
     \<lparr>getenv = demo_env,
      lookPath = (\<lambda>file. if file = ''gp'' then ''/usr/bin/gp'' else []),
      url_parse_host =
        (\<lambda>raw. if raw = ''https://gitpod.io'' then Inr ''gitpod.io''
               else Inl (Error ''invalid URL'' None)),
      http_get = (\<lambda>u. Inr \<lparr>status_code = 200, resp_body = gitpod_token_body\<rparr>),
      http_do = (\<lambda>req. Inr \<lparr>status_code = 200, resp_body = id_token_body\<rparr>),
      decode_token =
        (\<lambda>b. if b = gitpod_token_body then Inr (Some ''gitpod-token'')
             else if b = id_token_body then Inr (Some ''identity-token'')
             else if b = ''{}'' then Inr None
             else Inl (Error ''invalid character'' None)),
      json_marshal =
        (\<lambda>workspaceID audience.
           Inr (''{"workspace_id":"'' @ workspaceID @ ''","audience":["sts.amazonaws.com"]}'')),
      new_request = (\<lambda>m u. None),
      combined_output =
        (\<lambda>args. if take 2 args = [''aws'', ''sts''] then (sts_output, None) else ([], None)),
      json_unmarshal =
        (\<lambda>out. if out = sts_output
               then Inr \<lparr>AccessKeyId = ''AKIADEMO'', SecretAccessKey = ''secret'',
                          SessionToken = ''session''\<rparr>
               else Inl (Error ''unexpected end of JSON input'' None)),
      now_unix = 1700000000,
      map_order = 0\<rparr>\<close>

text \<open>A machine that is not a Gitpod workspace: no variable is set.\<close>

definition outside_world :: world where
  "outside_world = demo_world\<lparr>getenv := (\<lambda>v. [])\<rparr>"

text \<open>A workspace whose project has no role ARN.\<close>

definition no_arn_world :: world where
  "no_arn_world = demo_world\<lparr>getenv := (\<lambda>v. if v = ''IDP_AWS_ROLE_ARN'' then [] else demo_env v)\<rparr>"

text \<open>A workspace in which \<open>gp idp login aws\<close> exits with status 1.\<close>

definition gp_fail_world :: world where
  "gp_fail_world =
     demo_world\<lparr>combined_output :=
       (\<lambda>args. if args = [''gp'', ''idp'', ''login'', ''aws'']
               then (''not logged in'', Some (Error ''exit status 1'' None))
               else combined_output demo_world args)\<rparr>"

text \<open>
  A workspace in which \<open>gp idp login aws\<close> fails and the supervisor answers the token
  request with status 500 and an empty JSON object.
\<close>

definition status500_world :: world where
  "status500_world =
     gp_fail_world\<lparr>http_get := (\<lambda>u. Inr \<lparr>status_code = 500, resp_body = ''{}''\<rparr>)\<rparr>"

text \<open>The same, the supervisor answering with a body that is not JSON.\<close>

definition bad_json_world :: world where
  "bad_json_world =
     gp_fail_world\<lparr>http_get := (\<lambda>u. Inr \<lparr>status_code = 200, resp_body = ''<html>''\<rparr>)\<rparr>"

text \<open>
  The same as \<open>gp_fail_world\<close>, and the write of the secret access key to the profile
  exits with status 255.
\<close>

definition set_fail_world :: world where
  "set_fail_world =
     gp_fail_world\<lparr>combined_output :=
       (\<lambda>args. if take 6 args = [''aws'', ''configure'', ''set'', ''--profile'', ''default'',
                                   ''aws_secret_access_key'']
               then (''cannot write credentials'', Some (Error ''exit status 255'' None))
               else combined_output gp_fail_world args)\<rparr>"

text \<open>The same as \<open>gp_fail_world\<close>, the request to the supervisor timing out.\<close>

definition timeout_world :: world where
  "timeout_world =
     gp_fail_world\<lparr>http_get := (\<lambda>u. Inl (Error ''context deadline exceeded'' None))\<rparr>"

section \<open>Properties\<close>

subsection \<open>The environment gates\<close>

text \<open>
  C8. The SSO attempt returns \<open>(false, nil)\<close> in every environment and from every
  state, and does nothing: the trace is the one it was given.
\<close>

theorem signinWithSSO_never_attempts:
  "signinWithSSO w tr = ((False, None), tr)"
  by (simp add: signinWithSSO_def)

text \<open>
  C5. Where the variable \<open>GITPOD_WORKSPACE_URL\<close> is empty or \<open>gp\<close> is not found on
  the PATH, both Gitpod attempts return \<open>(false, nil)\<close> and add nothing to the trace:
  no message, no child process, no HTTP call.
\<close>

theorem gitpod_attempts_skip_outside_gitpod:
  assumes "getenv w ''GITPOD_WORKSPACE_URL'' = [] \<or> lookPath w ''gp'' = []"
  shows "signinWithGitpod w tr = ((False, None), tr)
       \<and> signinWithGitpodVerbose w tr = ((False, None), tr)"
  using assms
  by (auto simp: signinWithGitpod_def signinWithGitpodVerbose_def runningInGitpod_def)

theorem gitpod_attempts_skip_outside_gitpod_witness:
  "(getenv outside_world ''GITPOD_WORKSPACE_URL'' = [] \<or> lookPath outside_world ''gp'' = [])
   \<and> signinWithGitpod outside_world [] = ((False, None), [])
   \<and> signinWithGitpodVerbose outside_world [] = ((False, None), [])"
  using gitpod_attempts_skip_outside_gitpod [of outside_world "[]"]
  by (simp add: outside_world_def)

text \<open>
  C6. Where the marker variable and the helper are there and \<open>IDP_AWS_ROLE_ARN\<close> is
  empty, each Gitpod attempt returns \<open>(false, nil)\<close>, and what it adds to the trace is
  the instruction on standard error, once, and nothing else.
\<close>

theorem gitpod_attempts_hint_without_role_arn:
  assumes "getenv w ''GITPOD_WORKSPACE_URL'' \<noteq> []"
    and "lookPath w ''gp'' \<noteq> []"
    and "getenv w ''IDP_AWS_ROLE_ARN'' = []"
  shows "signinWithGitpod w tr = ((False, None), tr @ [Stderr role_arn_hint])
       \<and> signinWithGitpodVerbose w tr = ((False, None), tr @ [Stderr role_arn_hint])"
  using assms
  by (simp add: signinWithGitpod_def signinWithGitpodVerbose_def runningInGitpod_def)

theorem gitpod_attempts_hint_without_role_arn_witness:
  "getenv no_arn_world ''GITPOD_WORKSPACE_URL'' \<noteq> []
   \<and> lookPath no_arn_world ''gp'' \<noteq> []
   \<and> getenv no_arn_world ''IDP_AWS_ROLE_ARN'' = []
   \<and> signinWithGitpod no_arn_world [] = ((False, None), [Stderr role_arn_hint])
   \<and> signinWithGitpodVerbose no_arn_world [] = ((False, None), [Stderr role_arn_hint])"
  using gitpod_attempts_hint_without_role_arn [of no_arn_world "[]"]
  by (simp add: no_arn_world_def demo_world_def demo_env_def)

subsection \<open>The login helper\<close>

text \<open>
  C7. When \<open>signinWithGitpod\<close> runs \<open>gp idp login aws\<close> and the helper fails, the
  attempt returns \<open>false\<close> and one error: its message is \<open>gp idp login failure: \<close>,
  the combined output of the helper, a colon and the message of the execution error,
  and it wraps the execution error.
\<close>

theorem signinWithGitpod_helper_failure:
  assumes "getenv w ''GITPOD_WORKSPACE_URL'' \<noteq> []"
    and "lookPath w ''gp'' \<noteq> []"
    and "getenv w ''IDP_AWS_ROLE_ARN'' \<noteq> []"
    and "combined_output w [''gp'', ''idp'', ''login'', ''aws''] = (out, Some err)"
  shows "signinWithGitpod w tr =
           ((False, Some (Error (''gp idp login failure: '' @ out @ '': '' @ msg err) (Some err))),
            tr @ [Exec [''gp'', ''idp'', ''login'', ''aws'']])"
  using assms
  by (simp add: signinWithGitpod_def runningInGitpod_def gp_login_cmd_def)

theorem signinWithGitpod_helper_failure_witness:
  "getenv gp_fail_world ''GITPOD_WORKSPACE_URL'' \<noteq> []
   \<and> lookPath gp_fail_world ''gp'' \<noteq> []
   \<and> getenv gp_fail_world ''IDP_AWS_ROLE_ARN'' \<noteq> []
   \<and> combined_output gp_fail_world [''gp'', ''idp'', ''login'', ''aws'']
       = (''not logged in'', Some (Error ''exit status 1'' None))
   \<and> signinWithGitpod gp_fail_world [] =
       ((False, Some (Error ''gp idp login failure: not logged in: exit status 1''
                        (Some (Error ''exit status 1'' None)))),
        [Exec [''gp'', ''idp'', ''login'', ''aws'']])"
  using signinWithGitpod_helper_failure
          [of gp_fail_world "''not logged in''" "Error ''exit status 1'' None" "[]"]
  by (simp add: gp_fail_world_def demo_world_def demo_env_def)

subsection \<open>Auxiliary facts\<close>

lemma sprint_d_demo: "sprint_d 1700000000 = ''1700000000''"
  by (simp add: sprint_d_def digits.simps)

lemmas verbose_defs =
  signinWithGitpodVerbose_def runningInGitpod_def verbose_step1_def verbose_step2_def
  verbose_step3_def verbose_step4_def gitpod_token_url_def id_token_url_def
  id_token_request_def assume_role_cmd_def configure_set_cmd_def vars_def Let_def

lemmas world_defs =
  demo_world_def demo_env_def gitpod_token_body_def id_token_body_def sts_output_def
  gp_fail_world_def status500_world_def bad_json_world_def set_fail_world_def
  outside_world_def no_arn_world_def timeout_world_def

lemma mset_range_order: "mset (range_order n xs) = mset xs"
proof (induction n xs rule: range_order.induct)
  case (1 n)
  show ?case by simp
next
  case (2 n x xs)
  define ys where "ys = x # xs"
  define i where "i = n mod length ys"
  have i: "i < length ys" by (simp add: i_def ys_def)
  have IH: "mset (range_order (n div length ys) (take i ys @ drop (Suc i) ys))
              = mset (take i ys @ drop (Suc i) ys)"
    using "2.IH" [of ys i] by (simp add: ys_def i_def)
  have "mset ys = mset (take i ys @ ys ! i # drop (Suc i) ys)"
    using id_take_nth_drop [OF i] by simp
  then have "mset ys = add_mset (ys ! i) (mset (take i ys @ drop (Suc i) ys))"
    by simp
  moreover have "range_order n (x # xs)
      = ys ! i # range_order (n div length ys) (take i ys @ drop (Suc i) ys)"
    by (simp add: Let_def ys_def i_def)
  ultimately show ?case
    using IH by (simp add: ys_def)
qed

lemma length_range_order: "length (range_order n xs) = length xs"
  using mset_range_order [of n xs] by (metis size_mset)

text \<open>
  The model of the iteration order leaves no order out: every arrangement of the
  entries is the order of some choice of the runtime.
\<close>

lemma range_order_step:
  assumes "i < length ys"
  shows "range_order (i + length ys * m) ys
           = ys ! i # range_order m (take i ys @ drop (Suc i) ys)"
proof (cases ys)
  case Nil
  with assms show ?thesis by simp
next
  case (Cons x xs)
  have "(i + length ys * m) mod length ys = i"
    using assms by simp
  moreover have "(i + length ys * m) div length ys = m"
  proof -
    have "length ys \<noteq> 0" using assms by auto
    then have "(i + length ys * m) div length ys = m + i div length ys"
      by (rule div_mult_self2)
    also have "i div length ys = 0"
      using assms by (rule div_less)
    finally show ?thesis by simp
  qed
  ultimately have "(i + length ys * m) mod length ys = i \<and> (i + length ys * m) div length ys = m"
    by simp
  then show ?thesis
    unfolding Cons by (simp add: Let_def del: take_Cons' drop_Cons')
qed

lemma range_order_every_order:
  "mset ys = mset xs \<Longrightarrow> \<exists>n. range_order n xs = ys"
proof (induction ys arbitrary: xs)
  case Nil
  then show ?case by simp
next
  case (Cons y ys)
  then have "y \<in> set xs"
    by (metis list.set_intros(1) mset_eq_setD)
  then obtain i where i: "i < length xs" "xs ! i = y"
    by (auto simp: in_set_conv_nth)
  let ?xs' = "take i xs @ drop (Suc i) xs"
  have "mset xs = add_mset y (mset ?xs')"
    using id_take_nth_drop [OF i(1)] i(2)
    by (metis mset.simps(2) mset_append union_mset_add_mset_right)
  with Cons.prems have "mset ys = mset ?xs'" by simp
  then obtain m where "range_order m ?xs' = ys"
    using Cons.IH by blast
  with range_order_step [OF i(1), of m] i(2)
  have "range_order (i + length xs * m) xs = y # ys" by simp
  then show ?case ..
qed

lemma set_vars_all_ok:
  "\<forall>kv \<in> set kvs. snd (combined_output w (configure_set_cmd kv)) = None \<Longrightarrow>
     set_vars w kvs tr = (None, tr @ map (\<lambda>kv. Exec (configure_set_cmd kv)) kvs)"
proof (induction kvs arbitrary: tr)
  case Nil
  show ?case by simp
next
  case (Cons kv kvs)
  obtain out where "combined_output w (configure_set_cmd kv) = (out, None)"
    using Cons.prems by (cases "combined_output w (configure_set_cmd kv)") auto
  with Cons show ?case by simp
qed

lemma set_vars_first_failure:
  "i < length kvs \<Longrightarrow>
   \<forall>j<i. snd (combined_output w (configure_set_cmd (kvs ! j))) = None \<Longrightarrow>
   combined_output w (configure_set_cmd (kvs ! i)) = (out, Some err) \<Longrightarrow>
     set_vars w kvs tr =
       (Some (Error (msg err @ '': '' @ out) (Some err)),
        tr @ map (\<lambda>kv. Exec (configure_set_cmd kv)) (take (Suc i) kvs))"
proof (induction kvs arbitrary: tr i)
  case Nil
  then show ?case by simp
next
  case (Cons kv kvs)
  show ?case
  proof (cases i)
    case 0
    with Cons.prems show ?thesis by simp
  next
    case (Suc i')
    from Cons.prems Suc have "snd (combined_output w (configure_set_cmd kv)) = None"
      by auto
    then obtain o1 where o1: "combined_output w (configure_set_cmd kv) = (o1, None)"
      by (cases "combined_output w (configure_set_cmd kv)") auto
    have "set_vars w kvs (tr @ [Exec (configure_set_cmd kv)]) =
       (Some (Error (msg err @ '': '' @ out) (Some err)),
        (tr @ [Exec (configure_set_cmd kv)]) @ map (\<lambda>kv. Exec (configure_set_cmd kv)) (take (Suc i') kvs))"
      using Cons.prems Suc by (intro Cons.IH) auto
    with o1 Suc show ?thesis by simp
  qed
qed

lemma verbose_reaches_step4:
  assumes "getenv w ''GITPOD_WORKSPACE_URL'' \<noteq> []"
    and "lookPath w ''gp'' \<noteq> []"
    and "getenv w ''IDP_AWS_ROLE_ARN'' \<noteq> []"
    and "url_parse_host w (getenv w ''GITPOD_HOST'') = Inr host"
    and "http_get w (gitpod_token_url (getenv w ''SUPERVISOR_ADDR'') host) = Inr tokenResp"
    and "decode_token w (resp_body tokenResp) = Inr gitpodToken"
    and "json_marshal w (getenv w ''GITPOD_WORKSPACE_ID'') [''sts.amazonaws.com''] = Inr idpReq"
    and "new_request w ''POST'' (id_token_url host) = None"
    and "http_do w (id_token_request host (case gitpodToken of None \<Rightarrow> [] | Some x \<Rightarrow> x) idpReq) = Inr idResp"
    and "decode_token w (resp_body idResp) = Inr idToken"
    and "combined_output w
           (assume_role_cmd (getenv w ''IDP_AWS_ROLE_ARN'')
              (getenv w ''GITPOD_WORKSPACE_ID'' @ ''-'' @ sprint_d (now_unix w)) []) = (out, None)"
  shows "signinWithGitpodVerbose w tr =
           verbose_step4 w out
             (tr @ [HttpGet (gitpod_token_url (getenv w ''SUPERVISOR_ADDR'') host),
                    HttpDo (id_token_request host (case gitpodToken of None \<Rightarrow> [] | Some x \<Rightarrow> x) idpReq),
                    Exec (assume_role_cmd (getenv w ''IDP_AWS_ROLE_ARN'')
                            (getenv w ''GITPOD_WORKSPACE_ID'' @ ''-'' @ sprint_d (now_unix w)) [])])"
  using assms
  by (simp add: signinWithGitpodVerbose_def runningInGitpod_def verbose_step1_def
      verbose_step2_def verbose_step3_def Let_def)

lemma profile_sets_append: "profile_sets (xs @ ys) = profile_sets xs @ profile_sets ys"
  by (induction xs rule: profile_sets.induct) auto

lemma profile_sets_configure:
  "profile_sets (map (\<lambda>kv. Exec (configure_set_cmd kv)) kvs) = map configure_set_cmd kvs"
  by (induction kvs) (auto simp: configure_set_cmd_def)

lemma snd_verbose_step4:
  "json_unmarshal w out = Inr c \<Longrightarrow>
     snd (verbose_step4 w out tr) = snd (set_vars w (range_order (map_order w) (vars c)) tr)"
  by (cases "set_vars w (range_order (map_order w) (vars c)) tr")
     (auto simp: verbose_step4_def split: option.splits)

lemma set_vars_trace_three:
  assumes "length kvs = 3"
    and "\<forall>kv \<in> set (take 2 kvs). snd (combined_output w (configure_set_cmd kv)) = None"
  shows "snd (set_vars w kvs tr) = tr @ map (\<lambda>kv. Exec (configure_set_cmd kv)) kvs"
proof -
  obtain a b c where kvs: "kvs = [a, b, c]"
    using assms(1) by (auto simp: length_Suc_conv numeral_3_eq_3)
  from assms(2) kvs have ab: "snd (combined_output w (configure_set_cmd a)) = None"
      "snd (combined_output w (configure_set_cmd b)) = None"
    by (simp_all add: numeral_2_eq_2)
  obtain oa ob where oa: "combined_output w (configure_set_cmd a) = (oa, None)"
    and ob: "combined_output w (configure_set_cmd b) = (ob, None)"
    using ab by (metis prod.collapse)
  show ?thesis
    by (cases "combined_output w (configure_set_cmd c)")
       (auto simp: kvs oa ob split: option.splits)
qed

lemma signin_loop_failed:
  "\<not> fst (fst (signin tr)) \<Longrightarrow>
     signin_loop (signin # rest) tr = signin_loop rest (attempt_failed signin tr)"
  by (cases "signin tr") (auto simp: attempt_failed_def split: option.splits)

lemma signin_loop_signed_in:
  "fst (fst (signin tr)) \<Longrightarrow> signin_loop (signin # rest) tr = (True, snd (signin tr))"
  by (cases "signin tr") auto

lemma attempts_failed_Cons:
  "attempts_failed (signin # rest) tr = attempts_failed rest (attempt_failed signin tr)"
  by (simp add: attempts_failed_def)

lemma attempts_failed_Nil: "attempts_failed [] tr = tr"
  by (simp add: attempts_failed_def)

lemma signin_loop_first_success:
  "k < length methods \<Longrightarrow>
   \<forall>j<k. \<not> fst (fst ((methods ! j) (attempts_failed (take j methods) tr))) \<Longrightarrow>
   fst (fst ((methods ! k) (attempts_failed (take k methods) tr))) \<Longrightarrow>
     signin_loop methods tr = (True, snd ((methods ! k) (attempts_failed (take k methods) tr)))"
proof (induction methods arbitrary: tr k)
  case Nil
  then show ?case by simp
next
  case (Cons signin rest)
  show ?case
  proof (cases k)
    case 0
    with Cons.prems show ?thesis
      by (simp add: signin_loop_signed_in attempts_failed_Nil del: signin_loop.simps)
  next
    case (Suc k')
    from Cons.prems(2) Suc have nf: "\<not> fst (fst (signin tr))"
      by (auto simp: attempts_failed_Nil dest: spec [of _ 0])
    have a: "\<forall>j<k'. \<not> fst (fst ((rest ! j) (attempts_failed (take j rest) (attempt_failed signin tr))))"
    proof (intro allI impI)
      fix j assume "j < k'"
      then have "Suc j < k" using Suc by simp
      with Cons.prems(2) show "\<not> fst (fst ((rest ! j) (attempts_failed (take j rest) (attempt_failed signin tr))))"
        by (auto simp: attempts_failed_Cons dest: spec [of _ "Suc j"])
    qed
    have b: "k' < length rest" using Cons.prems(1) Suc by simp
    have c: "fst (fst ((rest ! k') (attempts_failed (take k' rest) (attempt_failed signin tr))))"
      using Cons.prems(3) Suc by (simp add: attempts_failed_Cons)
    have "signin_loop rest (attempt_failed signin tr)
        = (True, snd ((rest ! k') (attempts_failed (take k' rest) (attempt_failed signin tr))))"
      by (rule Cons.IH [OF b a c])
    with nf Suc show ?thesis
      by (simp add: signin_loop_failed attempts_failed_Cons del: signin_loop.simps)
  qed
qed

lemma signin_loop_exhausted:
  "\<forall>j<length methods. \<not> fst (fst ((methods ! j) (attempts_failed (take j methods) tr))) \<Longrightarrow>
     signin_loop methods tr = (False, attempts_failed methods tr)"
proof (induction methods arbitrary: tr)
  case Nil
  show ?case by (simp add: attempts_failed_Nil)
next
  case (Cons signin rest)
  from Cons.prems have nf: "\<not> fst (fst (signin tr))"
    by (auto simp: attempts_failed_Nil dest: spec [of _ 0])
  have "\<forall>j<length rest. \<not> fst (fst ((rest ! j) (attempts_failed (take j rest) (attempt_failed signin tr))))"
  proof (intro allI impI)
    fix j assume "j < length rest"
    then have "Suc j < length (signin # rest)" by simp
    with Cons.prems show "\<not> fst (fst ((rest ! j) (attempts_failed (take j rest) (attempt_failed signin tr))))"
      by (auto simp: attempts_failed_Cons dest: spec [of _ "Suc j"])
  qed
  then have "signin_loop rest (attempt_failed signin tr)
      = (False, attempts_failed rest (attempt_failed signin tr))"
    by (rule Cons.IH)
  with nf show ?case
    by (simp add: signin_loop_failed attempts_failed_Cons del: signin_loop.simps)
qed

lemma signin_loop_False:
  "\<not> fst (signin_loop methods tr) \<Longrightarrow> signin_loop methods tr = (False, attempts_failed methods tr)"
proof (induction methods arbitrary: tr)
  case Nil
  show ?case by (simp add: attempts_failed_Nil)
next
  case (Cons signin rest)
  have nf: "\<not> fst (fst (signin tr))"
    using Cons.prems signin_loop_signed_in [of signin tr rest] by auto
  with Cons show ?case
    by (simp add: signin_loop_failed attempts_failed_Cons del: signin_loop.simps)
qed

subsection \<open>The verbose flow\<close>

text \<open>
  C1. The claim: the \<open>token\<close> member of the response of step 2 is what step 3 passes
  after \<open>--web-identity-token\<close>. The code does not do that. In the workspace
  \<open>demo_world\<close> the identity provider answers with the token \<open>identity-token\<close>, and
  the credential exchange is run with the empty string as its web-identity token:
  step 2 decodes into the variable of step 1 and leaves \<open>idtkn\<close> as it was declared.
\<close>

theorem verbose_passes_empty_web_identity_token:
  \<open>http_do demo_world
      (id_token_request ''gitpod.io'' ''gitpod-token''
         ''{"workspace_id":"demo-ws","audience":["sts.amazonaws.com"]}'')
     = Inr \<lparr>status_code = 200, resp_body = ''{"token":"identity-token"}''\<rparr>
   \<and> decode_token demo_world ''{"token":"identity-token"}'' = Inr (Some ''identity-token'')
   \<and> signinWithGitpodVerbose demo_world [] =
       ((True, None),
        [HttpGet ''http://localhost:22999/_supervisor/v1/token/gitpod/gitpod.io/'',
         HttpDo (id_token_request ''gitpod.io'' ''gitpod-token''
                   ''{"workspace_id":"demo-ws","audience":["sts.amazonaws.com"]}''),
         Exec [''aws'', ''sts'', ''assume-role-with-web-identity'',
               ''--role-arn'', ''arn:aws:iam::123456789012:role/demo'',
               ''--role-session-name'', ''demo-ws-1700000000'',
               ''--web-identity-token'', ''''],
         Exec [''aws'', ''configure'', ''set'', ''--profile'', ''default'',
               ''aws_access_key_id'', ''AKIADEMO''],
         Exec [''aws'', ''configure'', ''set'', ''--profile'', ''default'',
               ''aws_secret_access_key'', ''secret''],
         Exec [''aws'', ''configure'', ''set'', ''--profile'', ''default'',
               ''aws_session_token'', ''session'']])\<close>
  by (simp add: world_defs verbose_defs sprint_d_demo)

text \<open>
  C2, as it is stated, fails: a response to the token request with a status outside
  200..299 does not stop the flow. In \<open>status500_world\<close> the supervisor answers with
  status 500 and the body \<open>{}\<close>, which decodes; the identity-token request, the
  credential exchange and the three profile writes follow, and the attempt returns
  \<open>(true, nil)\<close>.
\<close>

theorem verbose_continues_after_status_500:
  \<open>http_get status500_world ''http://localhost:22999/_supervisor/v1/token/gitpod/gitpod.io/''
     = Inr \<lparr>status_code = 500, resp_body = ''{}''\<rparr>
   \<and> \<not> (200 \<le> (500::nat) \<and> (500::nat) < 300)
   \<and> signinWithGitpodVerbose status500_world [] =
       ((True, None),
        [HttpGet ''http://localhost:22999/_supervisor/v1/token/gitpod/gitpod.io/'',
         HttpDo (id_token_request ''gitpod.io'' ''''
                   ''{"workspace_id":"demo-ws","audience":["sts.amazonaws.com"]}''),
         Exec [''aws'', ''sts'', ''assume-role-with-web-identity'',
               ''--role-arn'', ''arn:aws:iam::123456789012:role/demo'',
               ''--role-session-name'', ''demo-ws-1700000000'',
               ''--web-identity-token'', ''''],
         Exec [''aws'', ''configure'', ''set'', ''--profile'', ''default'',
               ''aws_access_key_id'', ''AKIADEMO''],
         Exec [''aws'', ''configure'', ''set'', ''--profile'', ''default'',
               ''aws_secret_access_key'', ''secret''],
         Exec [''aws'', ''configure'', ''set'', ''--profile'', ''default'',
               ''aws_session_token'', ''session'']])\<close>
  by (simp add: world_defs verbose_defs sprint_d_demo)

text \<open>
  C2, amended. When the request for the Gitpod token fails in transport, or its
  response has a body that does not decode, whatever its status, the attempt returns
  \<open>false\<close> and an error that wraps the cause, and the request itself is all that the
  attempt adds to the trace: no identity-token request, no child process.
\<close>

theorem verbose_stops_when_token_retrieval_fails:
  assumes "getenv w ''GITPOD_WORKSPACE_URL'' \<noteq> []"
    and "lookPath w ''gp'' \<noteq> []"
    and "getenv w ''IDP_AWS_ROLE_ARN'' \<noteq> []"
    and "url_parse_host w (getenv w ''GITPOD_HOST'') = Inr host"
    and "u = gitpod_token_url (getenv w ''SUPERVISOR_ADDR'') host"
    and "http_get w u = Inl err
         \<or> (\<exists>resp. http_get w u = Inr resp \<and> decode_token w (resp_body resp) = Inl err)"
  shows "signinWithGitpodVerbose w tr =
           ((False,
             Some (Error ((case http_get w u of
                             Inl e \<Rightarrow> ''cannot get gitpod token: ''
                           | Inr resp \<Rightarrow> ''cannot decode gitpod token: '') @ msg err)
                     (Some err))),
            tr @ [HttpGet u])"
  using assms
  by (auto simp: signinWithGitpodVerbose_def runningInGitpod_def verbose_step1_def Let_def)

theorem verbose_stops_when_token_retrieval_fails_witness:
  "getenv bad_json_world ''GITPOD_WORKSPACE_URL'' \<noteq> []
   \<and> lookPath bad_json_world ''gp'' \<noteq> []
   \<and> getenv bad_json_world ''IDP_AWS_ROLE_ARN'' \<noteq> []
   \<and> url_parse_host bad_json_world (getenv bad_json_world ''GITPOD_HOST'') = Inr ''gitpod.io''
   \<and> http_get bad_json_world ''http://localhost:22999/_supervisor/v1/token/gitpod/gitpod.io/''
       = Inr \<lparr>status_code = 200, resp_body = ''<html>''\<rparr>
   \<and> decode_token bad_json_world ''<html>'' = Inl (Error ''invalid character'' None)
   \<and> signinWithGitpodVerbose bad_json_world [] =
       ((False, Some (Error ''cannot decode gitpod token: invalid character''
                        (Some (Error ''invalid character'' None)))),
        [HttpGet ''http://localhost:22999/_supervisor/v1/token/gitpod/gitpod.io/''])
   \<and> http_get timeout_world ''http://localhost:22999/_supervisor/v1/token/gitpod/gitpod.io/''
       = Inl (Error ''context deadline exceeded'' None)
   \<and> signinWithGitpodVerbose timeout_world [] =
       ((False, Some (Error ''cannot get gitpod token: context deadline exceeded''
                        (Some (Error ''context deadline exceeded'' None)))),
        [HttpGet ''http://localhost:22999/_supervisor/v1/token/gitpod/gitpod.io/''])"
  using verbose_stops_when_token_retrieval_fails
          [of bad_json_world "''gitpod.io''"
              "''http://localhost:22999/_supervisor/v1/token/gitpod/gitpod.io/''"
              "Error ''invalid character'' None" "[]"]
        verbose_stops_when_token_retrieval_fails
          [of timeout_world "''gitpod.io''"
              "''http://localhost:22999/_supervisor/v1/token/gitpod/gitpod.io/''"
              "Error ''context deadline exceeded'' None" "[]"]
  by (simp add: world_defs gitpod_token_url_def)

text \<open>
  C4, as it is stated, fails: valid answers to the two HTTP calls and to the credential
  exchange do not make three profile writes. In \<open>set_fail_world\<close> the three calls
  answer and the second write exits with status 255; the third write is not run.
\<close>

theorem verbose_two_profile_sets_when_second_fails:
  \<open>http_get set_fail_world ''http://localhost:22999/_supervisor/v1/token/gitpod/gitpod.io/''
     = Inr \<lparr>status_code = 200, resp_body = ''{"token":"gitpod-token"}''\<rparr>
   \<and> decode_token set_fail_world ''{"token":"gitpod-token"}'' = Inr (Some ''gitpod-token'')
   \<and> http_do set_fail_world
        (id_token_request ''gitpod.io'' ''gitpod-token''
           ''{"workspace_id":"demo-ws","audience":["sts.amazonaws.com"]}'')
       = Inr \<lparr>status_code = 200, resp_body = ''{"token":"identity-token"}''\<rparr>
   \<and> decode_token set_fail_world ''{"token":"identity-token"}'' = Inr (Some ''identity-token'')
   \<and> combined_output set_fail_world
        [''aws'', ''sts'', ''assume-role-with-web-identity'',
         ''--role-arn'', ''arn:aws:iam::123456789012:role/demo'',
         ''--role-session-name'', ''demo-ws-1700000000'',
         ''--web-identity-token'', '''']
       = (sts_output, None)
   \<and> json_unmarshal set_fail_world sts_output
       = Inr \<lparr>AccessKeyId = ''AKIADEMO'', SecretAccessKey = ''secret'', SessionToken = ''session''\<rparr>
   \<and> profile_sets (snd (signinWithGitpodVerbose set_fail_world [])) =
       [[''aws'', ''configure'', ''set'', ''--profile'', ''default'', ''aws_access_key_id'', ''AKIADEMO''],
        [''aws'', ''configure'', ''set'', ''--profile'', ''default'', ''aws_secret_access_key'', ''secret'']]\<close>
  by (simp add: world_defs verbose_defs sprint_d_demo)

text \<open>
  C4, amended. When the two HTTP calls and the credential exchange answer and their
  answers decode, and the first two profile writes of the iteration exit with status 0,
  the attempt runs exactly three \<open>aws configure set\<close> commands, each on the profile
  \<open>default\<close>, one for each of the keys \<open>aws_access_key_id\<close>,
  \<open>aws_secret_access_key\<close> and \<open>aws_session_token\<close>, in the order of the iteration.
\<close>

theorem verbose_three_profile_sets:
  assumes "getenv w ''GITPOD_WORKSPACE_URL'' \<noteq> []"
    and "lookPath w ''gp'' \<noteq> []"
    and "getenv w ''IDP_AWS_ROLE_ARN'' \<noteq> []"
    and "url_parse_host w (getenv w ''GITPOD_HOST'') = Inr host"
    and "http_get w (gitpod_token_url (getenv w ''SUPERVISOR_ADDR'') host) = Inr tokenResp"
    and "decode_token w (resp_body tokenResp) = Inr gitpodToken"
    and "json_marshal w (getenv w ''GITPOD_WORKSPACE_ID'') [''sts.amazonaws.com''] = Inr idpReq"
    and "new_request w ''POST'' (id_token_url host) = None"
    and "http_do w (id_token_request host (case gitpodToken of None \<Rightarrow> [] | Some x \<Rightarrow> x) idpReq) = Inr idResp"
    and "decode_token w (resp_body idResp) = Inr idToken"
    and "combined_output w
           (assume_role_cmd (getenv w ''IDP_AWS_ROLE_ARN'')
              (getenv w ''GITPOD_WORKSPACE_ID'' @ ''-'' @ sprint_d (now_unix w)) []) = (out, None)"
    and "json_unmarshal w out = Inr c"
    and "kvs = range_order (map_order w) (vars c)"
    and "\<forall>kv \<in> set (take 2 kvs). snd (combined_output w (configure_set_cmd kv)) = None"
  shows "profile_sets (drop (length tr) (snd (signinWithGitpodVerbose w tr))) =
           map (\<lambda>kv. [''aws'', ''configure'', ''set'', ''--profile'', ''default'', fst kv, snd kv]) kvs
       \<and> length kvs = 3
       \<and> mset (map fst kvs) = {#''aws_access_key_id'', ''aws_secret_access_key'', ''aws_session_token''#}"
proof -
  have "length (vars c) = 3"
    by (simp add: vars_def)
  then have len: "length kvs = 3"
    using assms(13) by (simp add: length_range_order)
  have "mset kvs = mset (vars c)"
    using assms(13) by (simp add: mset_range_order)
  then have "mset (map fst kvs) = mset (map fst (vars c))"
    by (metis mset_map)
  then have keys: "mset (map fst kvs)
      = {#''aws_access_key_id'', ''aws_secret_access_key'', ''aws_session_token''#}"
    by (simp add: vars_def)
  let ?pre = "[HttpGet (gitpod_token_url (getenv w ''SUPERVISOR_ADDR'') host),
               HttpDo (id_token_request host (case gitpodToken of None \<Rightarrow> [] | Some x \<Rightarrow> x) idpReq),
               Exec (assume_role_cmd (getenv w ''IDP_AWS_ROLE_ARN'')
                       (getenv w ''GITPOD_WORKSPACE_ID'' @ ''-'' @ sprint_d (now_unix w)) [])]"
  have "signinWithGitpodVerbose w tr = verbose_step4 w out (tr @ ?pre)"
    using assms(1-11) by (rule verbose_reaches_step4)
  then have "snd (signinWithGitpodVerbose w tr) = snd (set_vars w kvs (tr @ ?pre))"
    using assms(12,13) by (simp add: snd_verbose_step4)
  also have "\<dots> = (tr @ ?pre) @ map (\<lambda>kv. Exec (configure_set_cmd kv)) kvs"
    using len assms(14) by (rule set_vars_trace_three)
  finally have "drop (length tr) (snd (signinWithGitpodVerbose w tr))
      = ?pre @ map (\<lambda>kv. Exec (configure_set_cmd kv)) kvs"
    by simp
  then have "profile_sets (drop (length tr) (snd (signinWithGitpodVerbose w tr)))
      = map configure_set_cmd kvs"
    by (simp add: profile_sets_append profile_sets_configure assume_role_cmd_def)
  with len keys show ?thesis
    by (simp add: configure_set_cmd_def)
qed

theorem verbose_three_profile_sets_witness:
  "profile_sets (drop (length ([]::event list)) (snd (signinWithGitpodVerbose demo_world []))) =
     [[''aws'', ''configure'', ''set'', ''--profile'', ''default'', ''aws_access_key_id'', ''AKIADEMO''],
      [''aws'', ''configure'', ''set'', ''--profile'', ''default'', ''aws_secret_access_key'', ''secret''],
      [''aws'', ''configure'', ''set'', ''--profile'', ''default'', ''aws_session_token'', ''session'']]"
proof -
  have "profile_sets (drop (length ([]::event list)) (snd (signinWithGitpodVerbose demo_world []))) =
           map (\<lambda>kv. [''aws'', ''configure'', ''set'', ''--profile'', ''default'', fst kv, snd kv])
             [(''aws_access_key_id'', ''AKIADEMO''), (''aws_secret_access_key'', ''secret''),
              (''aws_session_token'', ''session'')]
       \<and> length [(''aws_access_key_id'', ''AKIADEMO''), (''aws_secret_access_key'', ''secret''),
              (''aws_session_token'', ''session'')] = 3
       \<and> mset (map fst [(''aws_access_key_id'', ''AKIADEMO''), (''aws_secret_access_key'', ''secret''),
              (''aws_session_token'', ''session'')])
          = {#''aws_access_key_id'', ''aws_secret_access_key'', ''aws_session_token''#}"
  proof (rule verbose_three_profile_sets [where w = demo_world and host = "''gitpod.io''"
          and tokenResp = "\<lparr>status_code = 200, resp_body = gitpod_token_body\<rparr>"
          and gitpodToken = "Some ''gitpod-token''"
          and idpReq = "''{'' @ [CHR 0x22] @ ''workspace_id'' @ [CHR 0x22] @ '':'' @ [CHR 0x22] @ ''demo-ws'' @ [CHR 0x22] @ '','' @ [CHR 0x22] @ ''audience'' @ [CHR 0x22] @ '':['' @ [CHR 0x22] @ ''sts.amazonaws.com'' @ [CHR 0x22] @ '']}''"
          and idResp = "\<lparr>status_code = 200, resp_body = id_token_body\<rparr>"
          and idToken = "Some ''identity-token''"
          and out = sts_output
          and c = "\<lparr>AccessKeyId = ''AKIADEMO'', SecretAccessKey = ''secret'', SessionToken = ''session''\<rparr>"])
  qed (simp_all add: world_defs sprint_d_demo vars_def assume_role_cmd_def configure_set_cmd_def)
  then show ?thesis by simp
qed

text \<open>
  C10. The profile writes are not atomic. When the write number \<open>k\<close> of the iteration
  (counted from 0 here) is the first that fails, the attempt returns \<open>false\<close> and the
  error of that write wrapped with its output, and the trace ends with that write: the
  writes before it were run and exited with status 0, no write follows, and no command
  that would undo them is run.
\<close>

theorem verbose_profile_writes_not_rolled_back:
  assumes "getenv w ''GITPOD_WORKSPACE_URL'' \<noteq> []"
    and "lookPath w ''gp'' \<noteq> []"
    and "getenv w ''IDP_AWS_ROLE_ARN'' \<noteq> []"
    and "url_parse_host w (getenv w ''GITPOD_HOST'') = Inr host"
    and "http_get w (gitpod_token_url (getenv w ''SUPERVISOR_ADDR'') host) = Inr tokenResp"
    and "decode_token w (resp_body tokenResp) = Inr gitpodToken"
    and "json_marshal w (getenv w ''GITPOD_WORKSPACE_ID'') [''sts.amazonaws.com''] = Inr idpReq"
    and "new_request w ''POST'' (id_token_url host) = None"
    and "http_do w (id_token_request host (case gitpodToken of None \<Rightarrow> [] | Some x \<Rightarrow> x) idpReq) = Inr idResp"
    and "decode_token w (resp_body idResp) = Inr idToken"
    and "combined_output w
           (assume_role_cmd (getenv w ''IDP_AWS_ROLE_ARN'')
              (getenv w ''GITPOD_WORKSPACE_ID'' @ ''-'' @ sprint_d (now_unix w)) []) = (out, None)"
    and "json_unmarshal w out = Inr c"
    and "kvs = range_order (map_order w) (vars c)"
    and "k < 3"
    and "\<forall>j<k. snd (combined_output w (configure_set_cmd (kvs ! j))) = None"
    and "combined_output w (configure_set_cmd (kvs ! k)) = (set_out, Some set_err)"
  shows "signinWithGitpodVerbose w tr =
           ((False, Some (Error (msg set_err @ '': '' @ set_out) (Some set_err))),
            tr @ [HttpGet (gitpod_token_url (getenv w ''SUPERVISOR_ADDR'') host),
                  HttpDo (id_token_request host (case gitpodToken of None \<Rightarrow> [] | Some x \<Rightarrow> x) idpReq),
                  Exec (assume_role_cmd (getenv w ''IDP_AWS_ROLE_ARN'')
                          (getenv w ''GITPOD_WORKSPACE_ID'' @ ''-'' @ sprint_d (now_unix w)) [])]
               @ map (\<lambda>kv. Exec [''aws'', ''configure'', ''set'', ''--profile'', ''default'', fst kv, snd kv])
                   (take (Suc k) kvs))"
proof -
  have "length (vars c) = 3"
    by (simp add: vars_def)
  then have len: "k < length kvs"
    using assms(13,14) by (simp add: length_range_order)
  let ?pre = "[HttpGet (gitpod_token_url (getenv w ''SUPERVISOR_ADDR'') host),
               HttpDo (id_token_request host (case gitpodToken of None \<Rightarrow> [] | Some x \<Rightarrow> x) idpReq),
               Exec (assume_role_cmd (getenv w ''IDP_AWS_ROLE_ARN'')
                       (getenv w ''GITPOD_WORKSPACE_ID'' @ ''-'' @ sprint_d (now_unix w)) [])]"
  have reach: "signinWithGitpodVerbose w tr = verbose_step4 w out (tr @ ?pre)"
    using assms(1-11) by (rule verbose_reaches_step4)
  have "set_vars w kvs (tr @ ?pre) =
          (Some (Error (msg set_err @ '': '' @ set_out) (Some set_err)),
           (tr @ ?pre) @ map (\<lambda>kv. Exec (configure_set_cmd kv)) (take (Suc k) kvs))"
    using len assms(15,16) by (rule set_vars_first_failure)
  then have "verbose_step4 w out (tr @ ?pre) =
          ((False, Some (Error (msg set_err @ '': '' @ set_out) (Some set_err))),
           (tr @ ?pre) @ map (\<lambda>kv. Exec (configure_set_cmd kv)) (take (Suc k) kvs))"
    using assms(12,13) by (simp add: verbose_step4_def)
  with reach show ?thesis
    by (simp add: configure_set_cmd_def)
qed

theorem verbose_profile_writes_not_rolled_back_witness:
  \<open>combined_output set_fail_world
      [''aws'', ''configure'', ''set'', ''--profile'', ''default'', ''aws_access_key_id'', ''AKIADEMO'']
     = ([], None)
   \<and> combined_output set_fail_world
      [''aws'', ''configure'', ''set'', ''--profile'', ''default'', ''aws_secret_access_key'', ''secret'']
     = (''cannot write credentials'', Some (Error ''exit status 255'' None))
   \<and> signinWithGitpodVerbose set_fail_world [] =
       ((False, Some (Error ''exit status 255: cannot write credentials''
                        (Some (Error ''exit status 255'' None)))),
        [HttpGet ''http://localhost:22999/_supervisor/v1/token/gitpod/gitpod.io/'',
         HttpDo (id_token_request ''gitpod.io'' ''gitpod-token''
                   ''{"workspace_id":"demo-ws","audience":["sts.amazonaws.com"]}''),
         Exec [''aws'', ''sts'', ''assume-role-with-web-identity'',
               ''--role-arn'', ''arn:aws:iam::123456789012:role/demo'',
               ''--role-session-name'', ''demo-ws-1700000000'',
               ''--web-identity-token'', ''''],
         Exec [''aws'', ''configure'', ''set'', ''--profile'', ''default'',
               ''aws_access_key_id'', ''AKIADEMO''],
         Exec [''aws'', ''configure'', ''set'', ''--profile'', ''default'',
               ''aws_secret_access_key'', ''secret'']])\<close>
  using verbose_profile_writes_not_rolled_back
          [where w = set_fail_world and host = "''gitpod.io''"
             and tokenResp = "\<lparr>status_code = 200, resp_body = gitpod_token_body\<rparr>"
             and gitpodToken = "Some ''gitpod-token''"
             and idpReq = \<open>''{"workspace_id":"demo-ws","audience":["sts.amazonaws.com"]}''\<close>
             and idResp = "\<lparr>status_code = 200, resp_body = id_token_body\<rparr>"
             and idToken = "Some ''identity-token''"
             and out = sts_output
             and c = "\<lparr>AccessKeyId = ''AKIADEMO'', SecretAccessKey = ''secret'',
                        SessionToken = ''session''\<rparr>"
             and kvs = "[(''aws_access_key_id'', ''AKIADEMO''), (''aws_secret_access_key'', ''secret''),
                         (''aws_session_token'', ''session'')]"
             and k = 1 and set_out = "''cannot write credentials''"
             and set_err = "Error ''exit status 255'' None" and tr = "[]"]
  by (simp add: world_defs sprint_d_demo vars_def assume_role_cmd_def configure_set_cmd_def
      gitpod_token_url_def id_token_url_def id_token_request_def)

subsection \<open>The dispatcher\<close>

text \<open>
  C3. The dispatcher goes through the methods in the order of the list. When method
  \<open>k\<close> (counted from 0) is the first that signs in, each method before it has been
  invoked once, in order, from the trace the ones before it left, with its error, if
  any, written to standard error; the run ends with the trace method \<open>k\<close> leaves, and
  is the run on the first \<open>k + 1\<close> methods alone: no later method is invoked and
  nothing more is written. When no method signs in, every method has been invoked so,
  and the last thing written is the final message.
\<close>

theorem dispatch_stops_at_first_success:
  "(k < length methods
      \<and> (\<forall>j<k. \<not> fst (fst ((methods ! j) (attempts_failed (take j methods) tr))))
      \<and> fst (fst ((methods ! k) (attempts_failed (take k methods) tr)))
    \<longrightarrow> signin_loop methods tr = (True, snd ((methods ! k) (attempts_failed (take k methods) tr)))
        \<and> dispatch methods tr = snd ((methods ! k) (attempts_failed (take k methods) tr))
        \<and> dispatch methods tr = dispatch (take (Suc k) methods) tr)
   \<and> ((\<forall>j<length methods. \<not> fst (fst ((methods ! j) (attempts_failed (take j methods) tr))))
    \<longrightarrow> dispatch methods tr = attempts_failed methods tr @ [Stderr tried_everything])"
proof (intro conjI impI)
  assume h: "k < length methods
      \<and> (\<forall>j<k. \<not> fst (fst ((methods ! j) (attempts_failed (take j methods) tr))))
      \<and> fst (fst ((methods ! k) (attempts_failed (take k methods) tr)))"
  then show l: "signin_loop methods tr = (True, snd ((methods ! k) (attempts_failed (take k methods) tr)))"
    by (intro signin_loop_first_success) auto
  then show d: "dispatch methods tr = snd ((methods ! k) (attempts_failed (take k methods) tr))"
    by (simp add: dispatch_def)
  have "signin_loop (take (Suc k) methods) tr
      = (True, snd ((take (Suc k) methods ! k) (attempts_failed (take k (take (Suc k) methods)) tr)))"
    using h by (intro signin_loop_first_success) (auto simp: min_def)
  then have "dispatch (take (Suc k) methods) tr = snd ((methods ! k) (attempts_failed (take k methods) tr))"
    by (simp add: dispatch_def min_def)
  with d show "dispatch methods tr = dispatch (take (Suc k) methods) tr" by simp
next
  assume "\<forall>j<length methods. \<not> fst (fst ((methods ! j) (attempts_failed (take j methods) tr)))"
  then show "dispatch methods tr = attempts_failed methods tr @ [Stderr tried_everything]"
    by (simp add: dispatch_def signin_loop_exhausted)
qed

theorem dispatch_stops_at_first_success_witness:
  "(1 < length (signinMethods status500_world)
    \<and> \<not> fst (fst ((signinMethods status500_world ! 0) []))
    \<and> fst (fst ((signinMethods status500_world ! 1)
                  (attempts_failed (take 1 (signinMethods status500_world)) []))))
   \<and> dispatch (signinMethods status500_world) [] =
       snd (signinWithGitpodVerbose status500_world
              [Exec [''gp'', ''idp'', ''login'', ''aws''],
               Stderr ''error while logging in: gp idp login failure: not logged in: exit status 1\<newline>''])
   \<and> \<not> fst (fst ((signinMethods bad_json_world ! 0) []))
   \<and> \<not> fst (fst ((signinMethods bad_json_world ! 1)
                    (attempts_failed (take 1 (signinMethods bad_json_world)) [])))
   \<and> \<not> fst (fst ((signinMethods bad_json_world ! 2)
                    (attempts_failed (take 2 (signinMethods bad_json_world)) [])))
   \<and> dispatch (signinMethods bad_json_world) [] =
       [Exec [''gp'', ''idp'', ''login'', ''aws''],
        Stderr ''error while logging in: gp idp login failure: not logged in: exit status 1\<newline>'',
        HttpGet ''http://localhost:22999/_supervisor/v1/token/gitpod/gitpod.io/'',
        Stderr ''error while logging in: cannot decode gitpod token: invalid character\<newline>'',
        Stderr tried_everything]"
proof -
  have m: "length (signinMethods status500_world) = 3" "length (signinMethods bad_json_world) = 3"
    by (simp_all add: signinMethods_def)
  have g5: "signinWithGitpod status500_world [] =
      ((False, Some (Error ''gp idp login failure: not logged in: exit status 1''
                        (Some (Error ''exit status 1'' None)))),
        [Exec [''gp'', ''idp'', ''login'', ''aws'']])"
    by (simp add: world_defs signinWithGitpod_def runningInGitpod_def gp_login_cmd_def)
  have gb: "signinWithGitpod bad_json_world [] =
      ((False, Some (Error ''gp idp login failure: not logged in: exit status 1''
                        (Some (Error ''exit status 1'' None)))),
        [Exec [''gp'', ''idp'', ''login'', ''aws'']])"
    by (simp add: world_defs signinWithGitpod_def runningInGitpod_def gp_login_cmd_def)
  have v5: "fst (signinWithGitpodVerbose status500_world
              [Exec [''gp'', ''idp'', ''login'', ''aws''],
               Stderr ''error while logging in: gp idp login failure: not logged in: exit status 1\<newline>''])
            = (True, None)"
    by (simp add: world_defs verbose_defs sprint_d_demo)
  have vb: "signinWithGitpodVerbose bad_json_world
              [Exec [''gp'', ''idp'', ''login'', ''aws''],
               Stderr ''error while logging in: gp idp login failure: not logged in: exit status 1\<newline>'']
            = ((False, Some (Error ''cannot decode gitpod token: invalid character''
                      (Some (Error ''invalid character'' None)))),
               [Exec [''gp'', ''idp'', ''login'', ''aws''],
                Stderr ''error while logging in: gp idp login failure: not logged in: exit status 1\<newline>'',
                HttpGet ''http://localhost:22999/_supervisor/v1/token/gitpod/gitpod.io/''])"
    by (simp add: world_defs verbose_defs)
  have a5: "attempts_failed (take 1 (signinMethods status500_world)) [] =
      [Exec [''gp'', ''idp'', ''login'', ''aws''],
       Stderr ''error while logging in: gp idp login failure: not logged in: exit status 1\<newline>'']"
    by (simp add: signinMethods_def attempts_failed_def attempt_failed_def g5)
  have h1: "1 < length (signinMethods status500_world)
    \<and> (\<forall>j<1. \<not> fst (fst ((signinMethods status500_world ! j)
                  (attempts_failed (take j (signinMethods status500_world)) []))))
    \<and> fst (fst ((signinMethods status500_world ! 1)
                  (attempts_failed (take 1 (signinMethods status500_world)) [])))"
    unfolding a5 by (simp add: m) (simp add: signinMethods_def attempts_failed_def g5 v5)
  have h2: "\<forall>j<length (signinMethods bad_json_world).
         \<not> fst (fst ((signinMethods bad_json_world ! j)
                       (attempts_failed (take j (signinMethods bad_json_world)) [])))"
    unfolding m
    by (simp add: numeral_3_eq_3 less_Suc_eq signinMethods_def attempts_failed_def
        attempt_failed_def gb vb signinWithSSO_def)
  have ab: "attempts_failed (signinMethods bad_json_world) [] =
       [Exec [''gp'', ''idp'', ''login'', ''aws''],
        Stderr ''error while logging in: gp idp login failure: not logged in: exit status 1\<newline>'',
        HttpGet ''http://localhost:22999/_supervisor/v1/token/gitpod/gitpod.io/'',
        Stderr ''error while logging in: cannot decode gitpod token: invalid character\<newline>'']"
    by (simp add: signinMethods_def attempts_failed_def attempt_failed_def gb vb signinWithSSO_def)
  from dispatch_stops_at_first_success [of 1 "signinMethods status500_world" "[]"] h1
  have "dispatch (signinMethods status500_world) [] =
          snd ((signinMethods status500_world ! 1)
                 (attempts_failed (take 1 (signinMethods status500_world)) []))"
    by blast
  then have d1: "dispatch (signinMethods status500_world) [] =
       snd (signinWithGitpodVerbose status500_world
              [Exec [''gp'', ''idp'', ''login'', ''aws''],
               Stderr ''error while logging in: gp idp login failure: not logged in: exit status 1\<newline>''])"
    unfolding a5 by (simp add: signinMethods_def)
  from dispatch_stops_at_first_success [of 0 "signinMethods bad_json_world" "[]"] h2
  have d2: "dispatch (signinMethods bad_json_world) [] =
      attempts_failed (signinMethods bad_json_world) [] @ [Stderr tried_everything]"
    by blast
  have h3: "\<not> fst (fst ((signinMethods bad_json_world ! 0) []))
      \<and> \<not> fst (fst ((signinMethods bad_json_world ! 1)
                    (attempts_failed (take 1 (signinMethods bad_json_world)) [])))
      \<and> \<not> fst (fst ((signinMethods bad_json_world ! 2)
                    (attempts_failed (take 2 (signinMethods bad_json_world)) [])))"
    by (simp add: signinMethods_def attempts_failed_def attempt_failed_def gb vb
        signinWithSSO_def)
  from h1 h3 d1 d2 show ?thesis
    unfolding ab by (simp add: attempts_failed_Nil)
qed

text \<open>
  C9. The process exits with status 0 in every world; and when no method has signed
  in, what the run leaves is the trace of the failed attempts followed by the final
  message on standard error. The exit status does not tell exhaustion from success.
\<close>

theorem exhaustion_exits_with_status_zero:
  "fst (run_program w) = 0
   \<and> (\<not> fst (signin_loop (signinMethods w) [])
      \<longrightarrow> run_program w = (0, attempts_failed (signinMethods w) [] @ [Stderr tried_everything]))"
  by (auto simp: run_program_def main_def dispatch_def dest: signin_loop_False)

theorem exhaustion_exits_with_status_zero_witness:
  "\<not> fst (signin_loop (signinMethods bad_json_world) [])
   \<and> run_program bad_json_world =
       (0, [Exec [''gp'', ''idp'', ''login'', ''aws''],
            Stderr ''error while logging in: gp idp login failure: not logged in: exit status 1\<newline>'',
            HttpGet ''http://localhost:22999/_supervisor/v1/token/gitpod/gitpod.io/'',
            Stderr ''error while logging in: cannot decode gitpod token: invalid character\<newline>'',
            Stderr tried_everything])"
  using exhaustion_exits_with_status_zero [of bad_json_world]
  by (simp add: world_defs verbose_defs signinMethods_def signinWithGitpod_def gp_login_cmd_def
      signinWithSSO_def attempts_failed_def attempt_failed_def)

end
